theory Spec2Isabelle
  imports Main "HOL-Library.Word"
begin

section \<open>The replication DLQ handler of cadence (package replication)\<close>

text \<open>
  The handler reads, purges and merges the dead-lettered replication tasks of a source
  cluster. It talks to three collaborators that are not part of the file: the execution
  manager of the shard (the durable DLQ), the remote admin client of the source cluster
  (hydration) and one task executor per source cluster. The collaborators are parameters
  of the embedding. Each of their operations takes the state of the outside world and
  returns its answer with the new state, so that an answer may depend on everything that
  happened before; the world is a type variable, nothing is assumed about it.

  Every function of the handler returns, besides its Go results and the new world, the
  list of the calls it made to its collaborators, in the order it made them.

  Go values are embedded as follows: \<open>int64\<close> is a 64-bit word compared with the signed
  order, as Go compares it; \<open>int16\<close> is a 16-bit word; a byte slice is a list of 8-bit
  words, the nil slice being the empty list; an \<open>error\<close> result is an \<open>error option\<close>,
  \<open>None\<close> being Go's nil; a \<open>(value, error)\<close> result of a collaborator is a sum, \<open>Inl\<close>
  the error; a Go map is a partial function; a pointer to a struct is the struct, the
  collaborators being taken to return no nil pointer beside a nil error. The
  \<open>context.Context\<close> argument is only handed on to the collaborators and is left out.
\<close>

subsection \<open>Data\<close>

type_synonym int64 = "64 word"
type_synonym int16 = "16 word"
type_synonym bytes = "8 word list"

text \<open>\<open>defaultBeginningMessageID = -1\<close>\<close>

definition defaultBeginningMessageID :: int64 where
  "defaultBeginningMessageID = - 1"

text \<open>
  Go's \<open>error\<close> interface. \<open>types.BadRequestError\<close> is the one error type the handler
  builds itself; every other error comes from a collaborator and is handed on as it is.
\<close>

datatype error = BadRequestError string | CollaboratorError string

text \<open>\<open>errInvalidCluster = &types.BadRequestError{Message: "Invalid target cluster name."}\<close>\<close>

definition errInvalidCluster :: error where
  "errInvalidCluster = BadRequestError ''Invalid target cluster name.''"

text \<open>
  \<open>persistence.ReplicationTaskInfo\<close>, the entry as the store holds it, with the fields
  the handler reads. \<open>TaskType\<close> is a Go \<open>int\<close> there.
\<close>

record persistence_ReplicationTaskInfo =
  p_DomainID :: string
  p_WorkflowID :: string
  p_RunID :: string
  p_TaskType :: int
  p_TaskID :: int64
  p_Version :: int64
  p_FirstEventID :: int64
  p_NextEventID :: int64
  p_ScheduledID :: int64

text \<open>\<open>types.ReplicationTaskInfo\<close>, the lightweight entry sent to the remote cluster.\<close>

record ReplicationTaskInfo =
  DomainID :: string
  WorkflowID :: string
  RunID :: string
  TaskType :: int16
  TaskID :: int64
  Version :: int64
  FirstEventID :: int64
  NextEventID :: int64
  ScheduledID :: int64

text \<open>
  \<open>types.ReplicationTask\<close>, the hydrated task. The handler reads \<open>SourceTaskID\<close> only;
  the type-specific attributes are carried as one opaque field.
\<close>

record ReplicationTask =
  SourceTaskID :: int64
  Attributes :: string

text \<open>The requests and responses of the collaborators.\<close>

record GetReplicationTasksFromDLQRequest =
  SourceClusterName :: string
  ReadLevel :: int64
  MaxReadLevel :: int64
  BatchSize :: int
  NextPageToken :: bytes

record GetReplicationTasksFromDLQResponse =
  resp_Tasks :: "persistence_ReplicationTaskInfo list"
  resp_NextPageToken :: bytes

record RangeDeleteReplicationTaskFromDLQRequest =
  del_SourceClusterName :: string
  ExclusiveBeginTaskID :: int64
  InclusiveEndTaskID :: int64

record GetDLQReplicationMessagesRequest =
  TaskInfos :: "ReplicationTaskInfo list"

record GetDLQReplicationMessagesResponse =
  ReplicationTasks :: "ReplicationTask list"

subsection \<open>Collaborators\<close>

text \<open>
  \<open>TaskExecutor.execute(task, forceApply)\<close> returns \<open>(int, error)\<close>;
  \<open>GetDLQReplicationMessages\<close> is the one method of the remote admin client the handler
  calls; the execution manager is used through its two DLQ methods, the second returning
  the number of deleted rows.
\<close>

type_synonym 'w TaskExecutor =
  "ReplicationTask \<Rightarrow> bool \<Rightarrow> 'w \<Rightarrow> (error + int) \<times> 'w"

type_synonym 'w RemoteAdminClient =
  "GetDLQReplicationMessagesRequest \<Rightarrow> 'w \<Rightarrow> (error + GetDLQReplicationMessagesResponse) \<times> 'w"

record 'w ExecutionManager =
  GetReplicationTasksFromDLQ ::
    "GetReplicationTasksFromDLQRequest \<Rightarrow> 'w \<Rightarrow> (error + GetReplicationTasksFromDLQResponse) \<times> 'w"
  RangeDeleteReplicationTaskFromDLQ ::
    "RangeDeleteReplicationTaskFromDLQRequest \<Rightarrow> 'w \<Rightarrow> (error + int) \<times> 'w"

datatype logger = Logger string

text \<open>
  \<open>shard.Context\<close>: \<open>GetExecutionManager()\<close>, \<open>GetLogger()\<close> and
  \<open>GetService().GetClientBean().GetRemoteAdminClient(cluster)\<close>, which is nil (\<open>None\<close>)
  for a cluster without a client.
\<close>

record 'w shard_Context =
  GetExecutionManager :: "'w ExecutionManager"
  GetRemoteAdminClient :: "string \<Rightarrow> 'w RemoteAdminClient option"
  GetLogger :: logger

text \<open>The calls the handler makes to its collaborators.\<close>

datatype call =
    is_StoreRead: StoreRead GetReplicationTasksFromDLQRequest
  | is_Hydrate: Hydrate string GetDLQReplicationMessagesRequest
  | is_Execute: Execute string ReplicationTask bool
  | is_RangeDelete: RangeDelete RangeDeleteReplicationTaskFromDLQRequest

subsection \<open>The handler\<close>

record 'w dlqHandlerImpl =
  taskExecutors :: "string \<rightharpoonup> 'w TaskExecutor"
  shard :: "'w shard_Context"
  logger :: logger

text \<open>
  \<open>NewDLQHandler\<close>. A Go map argument is either nil (\<open>None\<close>) or a map, possibly with
  no key (\<open>Some Map.empty\<close>). The panic is the \<open>Inl\<close> result.
\<close>

datatype panic = Panic string

definition NewDLQHandler ::
  "'w shard_Context \<Rightarrow> (string \<rightharpoonup> 'w TaskExecutor) option \<Rightarrow> panic + 'w dlqHandlerImpl"
where
  "NewDLQHandler sh execs =
     (case execs of
        None \<Rightarrow> Inl (Panic ''Failed to initialize replication DLQ handler due to nil task executors'')
      | Some m \<Rightarrow> Inr \<lparr>taskExecutors = m, shard = sh, logger = GetLogger sh\<rparr>)"

text \<open>The loop of \<open>readMessagesWithAckLevel\<close> that copies the stored entries.\<close>

definition toTaskInfo :: "persistence_ReplicationTaskInfo \<Rightarrow> ReplicationTaskInfo" where
  "toTaskInfo task =
     \<lparr>DomainID = p_DomainID task, WorkflowID = p_WorkflowID task, RunID = p_RunID task,
      TaskType = word_of_int (p_TaskType task), TaskID = p_TaskID task,
      Version = p_Version task, FirstEventID = p_FirstEventID task,
      NextEventID = p_NextEventID task, ScheduledID = p_ScheduledID task\<rparr>"

text \<open>
  \<open>readMessagesWithAckLevel\<close>: the store read, then the lookup of the remote admin
  client, then the hydration call when the page has an entry.
\<close>

definition readMessagesWithAckLevel ::
  "'w dlqHandlerImpl \<Rightarrow> string \<Rightarrow> int64 \<Rightarrow> int \<Rightarrow> bytes \<Rightarrow> 'w \<Rightarrow>
   (ReplicationTask list \<times> ReplicationTaskInfo list \<times> bytes \<times> error option) \<times> 'w \<times> call list"
where
  "readMessagesWithAckLevel r sourceCluster lastMessageID pageSize pageToken w =
     (let req = \<lparr>SourceClusterName = sourceCluster, ReadLevel = defaultBeginningMessageID,
                 MaxReadLevel = lastMessageID, BatchSize = pageSize, NextPageToken = pageToken\<rparr>
      in case GetReplicationTasksFromDLQ (GetExecutionManager (shard r)) req w of
           (Inl err, w1) \<Rightarrow> (([], [], [], Some err), w1, [StoreRead req])
         | (Inr resp, w1) \<Rightarrow>
             (case GetRemoteAdminClient (shard r) sourceCluster of
                None \<Rightarrow> (([], [], [], Some errInvalidCluster), w1, [StoreRead req])
              | Some remoteAdminClient \<Rightarrow>
                  (let taskInfo = map toTaskInfo (resp_Tasks resp)
                   in if length taskInfo > 0
                      then (let hreq = \<lparr>TaskInfos = taskInfo\<rparr>
                            in case remoteAdminClient hreq w1 of
                                 (Inl err, w2) \<Rightarrow>
                                   (([], [], [], Some err), w2,
                                    [StoreRead req, Hydrate sourceCluster hreq])
                               | (Inr response, w2) \<Rightarrow>
                                   ((ReplicationTasks response, taskInfo, resp_NextPageToken resp, None),
                                    w2, [StoreRead req, Hydrate sourceCluster hreq]))
                      else (([], taskInfo, resp_NextPageToken resp, None), w1, [StoreRead req]))))"

definition ReadMessages ::
  "'w dlqHandlerImpl \<Rightarrow> string \<Rightarrow> int64 \<Rightarrow> int \<Rightarrow> bytes \<Rightarrow> 'w \<Rightarrow>
   (ReplicationTask list \<times> ReplicationTaskInfo list \<times> bytes \<times> error option) \<times> 'w \<times> call list"
where
  "ReadMessages r sourceCluster lastMessageID pageSize pageToken w =
     readMessagesWithAckLevel r sourceCluster lastMessageID pageSize pageToken w"

definition PurgeMessages ::
  "'w dlqHandlerImpl \<Rightarrow> string \<Rightarrow> int64 \<Rightarrow> 'w \<Rightarrow> error option \<times> 'w \<times> call list"
where
  "PurgeMessages r sourceCluster lastMessageID w =
     (let req = \<lparr>del_SourceClusterName = sourceCluster,
                 ExclusiveBeginTaskID = defaultBeginningMessageID,
                 InclusiveEndTaskID = lastMessageID\<rparr>
      in case RangeDeleteReplicationTaskFromDLQ (GetExecutionManager (shard r)) req w of
           (Inl err, w1) \<Rightarrow> (Some err, w1, [RangeDelete req])
         | (Inr _, w1) \<Rightarrow> (None, w1, [RangeDelete req]))"

text \<open>
  The first loop of \<open>MergeMessages\<close>: the lookup from \<open>SourceTaskID\<close> to the hydrated
  task; a later task with the same id replaces an earlier one.
\<close>

definition replicationTasksOf :: "ReplicationTask list \<Rightarrow> (int64 \<rightharpoonup> ReplicationTask)" where
  "replicationTasksOf tasks = fold (\<lambda>task m. m(SourceTaskID task \<mapsto> task)) tasks Map.empty"

text \<open>
  The second loop of \<open>MergeMessages\<close>, over the lightweight entries. \<open>lastMessageID\<close> is
  the loop's running maximum. The executor is the one the map holds for the source
  cluster; the map does not change during the call, so it is looked up once and passed.
  An executor error ends the loop (\<open>Inl\<close>); otherwise the loop returns the last value of
  \<open>lastMessageID\<close>.
\<close>

fun mergeLoop ::
  "'w TaskExecutor \<Rightarrow> string \<Rightarrow> (int64 \<rightharpoonup> ReplicationTask) \<Rightarrow> ReplicationTaskInfo list \<Rightarrow>
   int64 \<Rightarrow> 'w \<Rightarrow> (error + int64) \<times> 'w \<times> call list"
where
  "mergeLoop executor sourceCluster replicationTasks [] lastMessageID w =
     (Inr lastMessageID, w, [])"
| "mergeLoop executor sourceCluster replicationTasks (raw # rawTasks) lastMessageID w =
     (case replicationTasks (TaskID raw) of
        Some task \<Rightarrow>
          (case executor task True w of
             (Inl err, w1) \<Rightarrow> (Inl err, w1, [Execute sourceCluster task True])
           | (Inr _, w1) \<Rightarrow>
               (case mergeLoop executor sourceCluster replicationTasks rawTasks
                       (if lastMessageID <s TaskID raw then TaskID raw else lastMessageID) w1 of
                  (res, w2, calls) \<Rightarrow> (res, w2, Execute sourceCluster task True # calls)))
      | None \<Rightarrow>
          mergeLoop executor sourceCluster replicationTasks rawTasks
            (if lastMessageID <s TaskID raw then TaskID raw else lastMessageID) w)"

definition MergeMessages ::
  "'w dlqHandlerImpl \<Rightarrow> string \<Rightarrow> int64 \<Rightarrow> int \<Rightarrow> bytes \<Rightarrow> 'w \<Rightarrow>
   (bytes \<times> error option) \<times> 'w \<times> call list"
where
  "MergeMessages r sourceCluster lastMessageID pageSize pageToken w =
     (case taskExecutors r sourceCluster of
        None \<Rightarrow> (([], Some errInvalidCluster), w, [])
      | Some executor \<Rightarrow>
          (case readMessagesWithAckLevel r sourceCluster lastMessageID pageSize pageToken w of
             ((tasks, rawTasks, token, Some err), w1, calls1) \<Rightarrow> (([], Some err), w1, calls1)
           | ((tasks, rawTasks, token, None), w1, calls1) \<Rightarrow>
               (case mergeLoop executor sourceCluster (replicationTasksOf tasks) rawTasks
                       defaultBeginningMessageID w1 of
                  (Inl err, w2, calls2) \<Rightarrow> (([], Some err), w2, calls1 @ calls2)
                | (Inr lastMessageID', w2, calls2) \<Rightarrow>
                    (let req = \<lparr>del_SourceClusterName = sourceCluster,
                                ExclusiveBeginTaskID = defaultBeginningMessageID,
                                InclusiveEndTaskID = lastMessageID'\<rparr>
                     in case RangeDeleteReplicationTaskFromDLQ (GetExecutionManager (shard r)) req w2 of
                          (Inl err, w3) \<Rightarrow> (([], Some err), w3, calls1 @ calls2 @ [RangeDelete req])
                        | (Inr _, w3) \<Rightarrow> ((token, None), w3, calls1 @ calls2 @ [RangeDelete req])))))"

subsection \<open>Notions used to state the properties\<close>

text \<open>
  The hydrated tasks joined to the lightweight entries of a page, in page order: one task
  for each entry whose \<open>TaskID\<close> is a key of the lookup.
\<close>

definition matchedTasks ::
  "(int64 \<rightharpoonup> ReplicationTask) \<Rightarrow> ReplicationTaskInfo list \<Rightarrow> ReplicationTask list"
where
  "matchedTasks replicationTasks rawTasks =
     List.map_filter (\<lambda>raw. replicationTasks (TaskID raw)) rawTasks"

text \<open>The forced executor calls for a list of tasks, one per task, in order.\<close>

definition executions :: "string \<Rightarrow> ReplicationTask list \<Rightarrow> call list" where
  "executions sourceCluster tasks = map (\<lambda>task. Execute sourceCluster task True) tasks"

text \<open>The task ids handed to the executor by a list of calls, in order.\<close>

fun executedIDs :: "call list \<Rightarrow> int64 list" where
  "executedIDs [] = []"
| "executedIDs (Execute c task forced # calls) = SourceTaskID task # executedIDs calls"
| "executedIDs (_ # calls) = executedIDs calls"

text \<open>The request of the store read and of the range delete of a call of the handler.\<close>

definition readRequest :: "string \<Rightarrow> int64 \<Rightarrow> int \<Rightarrow> bytes \<Rightarrow> GetReplicationTasksFromDLQRequest" where
  "readRequest sourceCluster lastMessageID pageSize pageToken =
     \<lparr>SourceClusterName = sourceCluster, ReadLevel = defaultBeginningMessageID,
      MaxReadLevel = lastMessageID, BatchSize = pageSize, NextPageToken = pageToken\<rparr>"

definition purgeRequest :: "string \<Rightarrow> int64 \<Rightarrow> RangeDeleteReplicationTaskFromDLQRequest" where
  "purgeRequest sourceCluster lastMessageID =
     \<lparr>del_SourceClusterName = sourceCluster, ExclusiveBeginTaskID = defaultBeginningMessageID,
      InclusiveEndTaskID = lastMessageID\<rparr>"

text \<open>
  The forced executor calls for a list of tasks, applied to the world one after the other:
  the first error ends the run; \<open>None\<close> says that every call succeeded.
\<close>

fun executeAll :: "'w TaskExecutor \<Rightarrow> ReplicationTask list \<Rightarrow> 'w \<Rightarrow> error option \<times> 'w" where
  "executeAll executor [] w = (None, w)"
| "executeAll executor (task # tasks) w =
     (case executor task True w of
        (Inl err, w1) \<Rightarrow> (Some err, w1)
      | (Inr _, w1) \<Rightarrow> executeAll executor tasks w1)"

text \<open>The update of \<open>lastMessageID\<close> at one entry of the second loop.\<close>

definition track :: "ReplicationTaskInfo \<Rightarrow> int64 \<Rightarrow> int64" where
  "track raw lastMessageID = (if lastMessageID <s TaskID raw then TaskID raw else lastMessageID)"

subsection \<open>An example deployment\<close>

text \<open>
  A small deployment on which the theorems are instantiated. The world is the content of
  the DLQ of the source cluster: the store answers a read with the entries in the asked
  range, at most \<open>BatchSize\<close> of them, and a range delete removes the entries in its
  range. The remote cluster still has the tasks of the ids in \<open>known\<close>, and the
  executor fails on the ids in \<open>bad\<close>. A second remote cluster answers every
  request with the tasks 5, 6 and 9, asked for or not. Only the cluster \<open>west\<close> has a remote admin
  client or an executor.
\<close>

definition entry :: "int64 \<Rightarrow> persistence_ReplicationTaskInfo" where
  "entry i = \<lparr>p_DomainID = ''domain'', p_WorkflowID = ''workflow'', p_RunID = ''run'',
     p_TaskType = 0, p_TaskID = i, p_Version = 1, p_FirstEventID = 1, p_NextEventID = 2,
     p_ScheduledID = 0\<rparr>"

definition hydrated :: "int64 \<Rightarrow> ReplicationTask" where
  "hydrated i = \<lparr>SourceTaskID = i, Attributes = ''history''\<rparr>"

definition inRange :: "int64 \<Rightarrow> int64 \<Rightarrow> persistence_ReplicationTaskInfo \<Rightarrow> bool" where
  "inRange lo hi e = (lo <s p_TaskID e \<and> p_TaskID e \<le>s hi)"

definition exampleStore :: "bytes \<Rightarrow> (persistence_ReplicationTaskInfo list) ExecutionManager" where
  "exampleStore token =
     \<lparr>GetReplicationTasksFromDLQ = (\<lambda>req dlq.
        (Inr \<lparr>resp_Tasks = take (nat (BatchSize req))
                              (filter (inRange (ReadLevel req) (MaxReadLevel req)) dlq),
              resp_NextPageToken = token\<rparr>, dlq)),
      RangeDeleteReplicationTaskFromDLQ = (\<lambda>req dlq.
        (Inr (int (length (filter (inRange (ExclusiveBeginTaskID req) (InclusiveEndTaskID req)) dlq))),
         filter (\<lambda>e. \<not> inRange (ExclusiveBeginTaskID req) (InclusiveEndTaskID req) e) dlq))\<rparr>"

definition failingStore :: "(persistence_ReplicationTaskInfo list) ExecutionManager" where
  "failingStore =
     \<lparr>GetReplicationTasksFromDLQ = (\<lambda>req dlq. (Inl (CollaboratorError ''store unavailable''), dlq)),
      RangeDeleteReplicationTaskFromDLQ = (\<lambda>req dlq. (Inl (CollaboratorError ''store unavailable''), dlq))\<rparr>"

definition exampleClient :: "int64 list \<Rightarrow> (persistence_ReplicationTaskInfo list) RemoteAdminClient" where
  "exampleClient known =
     (\<lambda>req dlq. (Inr \<lparr>ReplicationTasks =
        map hydrated (filter (\<lambda>i. i \<in> set known) (map TaskID (TaskInfos req)))\<rparr>, dlq))"

definition strayClient :: "(persistence_ReplicationTaskInfo list) RemoteAdminClient" where
  "strayClient = (\<lambda>req dlq. (Inr \<lparr>ReplicationTasks = [hydrated 5, hydrated 6, hydrated 9]\<rparr>, dlq))"

definition failingClient :: "(persistence_ReplicationTaskInfo list) RemoteAdminClient" where
  "failingClient = (\<lambda>req dlq. (Inl (CollaboratorError ''remote unavailable''), dlq))"

definition exampleExecutor :: "int64 list \<Rightarrow> (persistence_ReplicationTaskInfo list) TaskExecutor" where
  "exampleExecutor bad =
     (\<lambda>task forced dlq.
        if SourceTaskID task \<in> set bad then (Inl (CollaboratorError ''apply failed''), dlq)
        else (Inr 0, dlq))"

definition exampleShard ::
  "(persistence_ReplicationTaskInfo list) ExecutionManager \<Rightarrow>
   (persistence_ReplicationTaskInfo list) RemoteAdminClient \<Rightarrow>
   (persistence_ReplicationTaskInfo list) shard_Context"
where
  "exampleShard store client =
     \<lparr>GetExecutionManager = store,
      GetRemoteAdminClient = (\<lambda>cluster. if cluster = ''west'' then Some client else None),
      GetLogger = Logger ''replication''\<rparr>"

definition exampleHandler ::
  "(persistence_ReplicationTaskInfo list) ExecutionManager \<Rightarrow>
   (persistence_ReplicationTaskInfo list) RemoteAdminClient \<Rightarrow> int64 list \<Rightarrow>
   (persistence_ReplicationTaskInfo list) dlqHandlerImpl"
where
  "exampleHandler store client bad =
     \<lparr>taskExecutors = [''west'' \<mapsto> exampleExecutor bad],
      shard = exampleShard store client,
      logger = Logger ''replication''\<rparr>"

text \<open>
  The same deployment with a journal: the world is the DLQ together with the ids of the
  tasks the executor has applied, in the order it applied them.
\<close>

definition onDLQ ::
  "('a \<Rightarrow> persistence_ReplicationTaskInfo list \<Rightarrow> 'b \<times> persistence_ReplicationTaskInfo list) \<Rightarrow>
   'a \<Rightarrow> persistence_ReplicationTaskInfo list \<times> int64 list \<Rightarrow>
   'b \<times> persistence_ReplicationTaskInfo list \<times> int64 list"
where
  "onDLQ f req w = (case f req (fst w) of (res, dlq) \<Rightarrow> (res, dlq, snd w))"

definition journalExecutor ::
  "int64 list \<Rightarrow> (persistence_ReplicationTaskInfo list \<times> int64 list) TaskExecutor"
where
  "journalExecutor bad =
     (\<lambda>task forced w.
        if SourceTaskID task \<in> set bad then (Inl (CollaboratorError ''apply failed''), w)
        else (Inr 0, fst w, snd w @ [SourceTaskID task]))"

definition journalHandler ::
  "int64 list \<Rightarrow> int64 list \<Rightarrow> (persistence_ReplicationTaskInfo list \<times> int64 list) dlqHandlerImpl"
where
  "journalHandler known bad =
     \<lparr>taskExecutors = [''west'' \<mapsto> journalExecutor bad],
      shard =
        \<lparr>GetExecutionManager =
           \<lparr>GetReplicationTasksFromDLQ = onDLQ (GetReplicationTasksFromDLQ (exampleStore [1])),
            RangeDeleteReplicationTaskFromDLQ =
              onDLQ (RangeDeleteReplicationTaskFromDLQ (exampleStore [1]))\<rparr>,
         GetRemoteAdminClient =
           (\<lambda>cluster. if cluster = ''west'' then Some (onDLQ (exampleClient known)) else None),
         GetLogger = Logger ''replication''\<rparr>,
      logger = Logger ''replication''\<rparr>"

lemmas example_defs =
  exampleHandler_def exampleShard_def exampleExecutor_def exampleClient_def failingClient_def
  strayClient_def exampleStore_def failingStore_def inRange_def hydrated_def entry_def toTaskInfo_def
  readRequest_def purgeRequest_def defaultBeginningMessageID_def errInvalidCluster_def
  word_sless_alt word_sle_eq Let_def

section \<open>Properties\<close>

subsection \<open>The merge loop\<close>

lemma matchedTasks_Nil: "matchedTasks rt [] = []"
  by (simp add: matchedTasks_def)

lemma matchedTasks_Cons:
  "matchedTasks rt (raw # raws) =
     (case rt (TaskID raw) of None \<Rightarrow> matchedTasks rt raws | Some t \<Rightarrow> t # matchedTasks rt raws)"
  by (simp add: matchedTasks_def split: option.split)

lemma matchedTasks_append: "matchedTasks rt (xs @ ys) = matchedTasks rt xs @ matchedTasks rt ys"
  by (induction xs) (simp_all add: matchedTasks_Nil matchedTasks_Cons split: option.split)

lemma executions_append: "executions c (xs @ ys) = executions c xs @ executions c ys"
  by (simp add: executions_def)

lemma mergeLoop_Inr:
  "mergeLoop ex c rt raws l w = (Inr b, w', calls) \<Longrightarrow>
     calls = executions c (matchedTasks rt raws) \<and> b = fold track raws l"
proof (induction raws arbitrary: l w calls)
  case Nil
  then show ?case by (simp add: matchedTasks_Nil executions_def)
next
  case (Cons raw raws)
  show ?case
  proof (cases "rt (TaskID raw)")
    case None
    with Cons.prems have "mergeLoop ex c rt raws (track raw l) w = (Inr b, w', calls)"
      by (simp add: track_def)
    from Cons.IH [OF this] None show ?thesis
      by (simp add: matchedTasks_Cons)
  next
    case (Some t)
    with Cons.prems obtain n w1 calls' where
      e: "ex t True w = (Inr n, w1)" and
      r: "mergeLoop ex c rt raws (track raw l) w1 = (Inr b, w', calls')" and
      c: "calls = Execute c t True # calls'"
      by (auto simp: track_def split: prod.splits sum.splits)
    from Cons.IH [OF r] Some c show ?thesis
      by (simp add: matchedTasks_Cons executions_def)
  qed
qed

lemma mergeLoop_Inl:
  "mergeLoop ex c rt raws l w = (Inl err, w', calls) \<Longrightarrow>
     \<exists>pre raw post task. raws = pre @ raw # post \<and> rt (TaskID raw) = Some task \<and>
       calls = executions c (matchedTasks rt pre) @ [Execute c task True]"
proof (induction raws arbitrary: l w calls)
  case Nil
  then show ?case by simp
next
  case (Cons raw raws)
  show ?case
  proof (cases "rt (TaskID raw)")
    case None
    with Cons.prems have "mergeLoop ex c rt raws (track raw l) w = (Inl err, w', calls)"
      by (simp add: track_def)
    from Cons.IH [OF this] obtain pre x post task where
      "raws = pre @ x # post" "rt (TaskID x) = Some task"
      "calls = executions c (matchedTasks rt pre) @ [Execute c task True]"
      by blast
    with None have "raw # raws = (raw # pre) @ x # post \<and> rt (TaskID x) = Some task \<and>
       calls = executions c (matchedTasks rt (raw # pre)) @ [Execute c task True]"
      by (simp add: matchedTasks_Cons)
    then show ?thesis by blast
  next
    case (Some t)
    show ?thesis
    proof (cases "ex t True w")
      case (Pair res w1)
      show ?thesis
      proof (cases res)
        case (Inl e)
        with Cons.prems Some Pair have "calls = [Execute c t True]"
          by simp
        with Some have "raw # raws = [] @ raw # raws \<and> rt (TaskID raw) = Some t \<and>
          calls = executions c (matchedTasks rt []) @ [Execute c t True]"
          by (simp add: matchedTasks_Nil executions_def)
        then show ?thesis by blast
      next
        case (Inr n)
        with Cons.prems Some Pair obtain calls' where
          r: "mergeLoop ex c rt raws (track raw l) w1 = (Inl err, w', calls')" and
          c: "calls = Execute c t True # calls'"
          by (auto simp: track_def split: prod.splits)
        from Cons.IH [OF r] obtain pre x post task where
          "raws = pre @ x # post" "rt (TaskID x) = Some task"
          "calls' = executions c (matchedTasks rt pre) @ [Execute c task True]"
          by blast
        with Some c have "raw # raws = (raw # pre) @ x # post \<and> rt (TaskID x) = Some task \<and>
          calls = executions c (matchedTasks rt (raw # pre)) @ [Execute c task True]"
          by (simp add: matchedTasks_Cons executions_def)
        then show ?thesis by blast
      qed
    qed
  qed
qed


lemma mergeLoop_executeAll:
  "executeAll ex (matchedTasks rt raws) w = (None, w') \<Longrightarrow>
   mergeLoop ex c rt raws l w = (Inr (fold track raws l), w', executions c (matchedTasks rt raws))"
proof (induction raws arbitrary: l w)
  case Nil
  then show ?case by (simp add: matchedTasks_Nil executions_def)
next
  case (Cons raw raws)
  show ?case
  proof (cases "rt (TaskID raw)")
    case None
    with Cons.prems have "executeAll ex (matchedTasks rt raws) w = (None, w')"
      by (simp add: matchedTasks_Cons)
    from Cons.IH [OF this, of "track raw l"] None show ?thesis
      by (simp add: matchedTasks_Cons track_def)
  next
    case (Some t)
    with Cons.prems obtain n w1 where
      e: "ex t True w = (Inr n, w1)" and
      r: "executeAll ex (matchedTasks rt raws) w1 = (None, w')"
      by (auto simp: matchedTasks_Cons split: prod.splits sum.splits)
    from Cons.IH [OF r, of "track raw l"] Some e show ?thesis
      by (simp add: matchedTasks_Cons track_def executions_def)
  qed
qed

lemma track_ge: "l \<le>s fold track raws l"
proof (induction raws arbitrary: l)
  case Nil show ?case by simp
next
  case (Cons raw raws)
  have "l \<le>s track raw l" by (simp add: track_def word_sless_alt word_sle_eq)
  moreover have "track raw l \<le>s fold track raws (track raw l)" by (rule Cons.IH)
  ultimately show ?case by (simp add: word_sle_eq)
qed

lemma track_upper: "r \<in> set raws \<Longrightarrow> TaskID r \<le>s fold track raws l"
proof (induction raws arbitrary: l)
  case Nil then show ?case by simp
next
  case (Cons raw raws)
  show ?case
  proof (cases "r = raw")
    case True
    have "TaskID raw \<le>s track raw l" by (simp add: track_def word_sless_alt word_sle_eq)
    moreover have "track raw l \<le>s fold track raws (track raw l)" by (rule track_ge)
    ultimately show ?thesis using True by (simp add: word_sle_eq)
  next
    case False
    with Cons.prems have "r \<in> set raws" by simp
    from Cons.IH [OF this] show ?thesis by simp
  qed
qed

lemma track_mem: "fold track raws l = l \<or> fold track raws l \<in> TaskID ` set raws"
proof (induction raws arbitrary: l)
  case Nil show ?case by simp
next
  case (Cons raw raws)
  from Cons.IH [of "track raw l"] show ?case
    by (auto simp: track_def split: if_splits)
qed


subsection \<open>The read step\<close>

lemma readMessagesWithAckLevel_store_error:
  "GetReplicationTasksFromDLQ (GetExecutionManager (shard r)) (readRequest c l ps tok) w = (Inl err, w1) \<Longrightarrow>
   readMessagesWithAckLevel r c l ps tok w = (([], [], [], Some err), w1, [StoreRead (readRequest c l ps tok)])"
  by (simp add: readMessagesWithAckLevel_def readRequest_def)

lemma readMessagesWithAckLevel_no_client:
  "GetReplicationTasksFromDLQ (GetExecutionManager (shard r)) (readRequest c l ps tok) w = (Inr resp, w1) \<Longrightarrow>
   GetRemoteAdminClient (shard r) c = None \<Longrightarrow>
   readMessagesWithAckLevel r c l ps tok w =
     (([], [], [], Some errInvalidCluster), w1, [StoreRead (readRequest c l ps tok)])"
  by (simp add: readMessagesWithAckLevel_def readRequest_def)

lemma readMessagesWithAckLevel_empty_page:
  "GetReplicationTasksFromDLQ (GetExecutionManager (shard r)) (readRequest c l ps tok) w = (Inr resp, w1) \<Longrightarrow>
   GetRemoteAdminClient (shard r) c = Some client \<Longrightarrow> resp_Tasks resp = [] \<Longrightarrow>
   readMessagesWithAckLevel r c l ps tok w =
     (([], [], resp_NextPageToken resp, None), w1, [StoreRead (readRequest c l ps tok)])"
  by (simp add: readMessagesWithAckLevel_def readRequest_def)

lemma readMessagesWithAckLevel_hydrate:
  "GetReplicationTasksFromDLQ (GetExecutionManager (shard r)) (readRequest c l ps tok) w = (Inr resp, w1) \<Longrightarrow>
   GetRemoteAdminClient (shard r) c = Some client \<Longrightarrow> resp_Tasks resp \<noteq> [] \<Longrightarrow>
   client \<lparr>TaskInfos = map toTaskInfo (resp_Tasks resp)\<rparr> w1 = (res, w2) \<Longrightarrow>
   readMessagesWithAckLevel r c l ps tok w =
     ((case res of
         Inl err \<Rightarrow> ([], [], [], Some err)
       | Inr response \<Rightarrow>
           (ReplicationTasks response, map toTaskInfo (resp_Tasks resp), resp_NextPageToken resp, None)),
      w2,
      [StoreRead (readRequest c l ps tok),
       Hydrate c \<lparr>TaskInfos = map toTaskInfo (resp_Tasks resp)\<rparr>])"
  by (cases res) (simp_all add: readMessagesWithAckLevel_def readRequest_def Let_def)

lemma readMessagesWithAckLevel_calls:
  assumes "readMessagesWithAckLevel r c l ps tok w = ((tasks, raws, token, err), w1, calls1)"
  shows "(calls1 = [StoreRead (readRequest c l ps tok)] \<or>
          (\<exists>infos. calls1 = [StoreRead (readRequest c l ps tok), Hydrate c \<lparr>TaskInfos = infos\<rparr>])) \<and>
         (err = None \<longrightarrow>
            calls1 = StoreRead (readRequest c l ps tok) #
                       (if raws = [] then [] else [Hydrate c \<lparr>TaskInfos = raws\<rparr>]))"
  using assms
  by (auto simp: readMessagesWithAckLevel_def readRequest_def Let_def
           split: prod.splits sum.splits option.splits if_splits)

subsection \<open>The lookup of hydrated tasks and the calls of a merge\<close>

lemma fold_update_Some:
  "fold (\<lambda>task m. m(SourceTaskID task \<mapsto> task)) tasks m i = Some t \<Longrightarrow>
     m i = Some t \<or> (SourceTaskID t = i \<and> t \<in> set tasks)"
proof (induction tasks arbitrary: m)
  case Nil
  then show ?case by simp
next
  case (Cons x xs)
  from Cons.prems have "fold (\<lambda>task m. m(SourceTaskID task \<mapsto> task)) xs (m(SourceTaskID x \<mapsto> x)) i = Some t"
    by (simp only: fold_Cons comp_apply)
  from Cons.IH [OF this] show ?case
    by (auto split: if_splits)
qed

lemma replicationTasksOf_Some:
  "replicationTasksOf tasks i = Some t \<Longrightarrow> SourceTaskID t = i \<and> t \<in> set tasks"
  using fold_update_Some [of tasks Map.empty i t] by (simp add: replicationTasksOf_def)

lemma matchedTasks_mem:
  "t \<in> set (matchedTasks rt raws) \<Longrightarrow> \<exists>raw\<in>set raws. rt (TaskID raw) = Some t"
  by (induction raws) (auto simp: matchedTasks_Nil matchedTasks_Cons split: option.splits)

lemma matchedTasks_ids:
  "(\<And>i t. rt i = Some t \<Longrightarrow> SourceTaskID t = i) \<Longrightarrow>
   map SourceTaskID (matchedTasks rt raws) = filter (\<lambda>i. rt i \<noteq> None) (map TaskID raws)"
  by (induction raws) (auto simp: matchedTasks_Nil matchedTasks_Cons split: option.splits)

lemma executedIDs_append: "executedIDs (xs @ ys) = executedIDs xs @ executedIDs ys"
  by (induction xs rule: executedIDs.induct) simp_all

lemma executedIDs_executions: "executedIDs (executions c ts) = map SourceTaskID ts"
  by (induction ts) (simp_all add: executions_def)


lemma executions_no_RangeDelete: "filter is_RangeDelete (executions c ts) = []"
  by (induction ts) (simp_all add: executions_def)

lemma mergeLoop_calls_prefix:
  assumes "mergeLoop ex c rt raws l w = (res, w', calls)"
  shows "\<exists>ts rest. calls = executions c ts \<and> matchedTasks rt raws = ts @ rest"
proof (cases res)
  case (Inl err)
  with assms mergeLoop_Inl [of ex c rt raws l w err w' calls]
  obtain pre raw post task where
    "raws = pre @ raw # post" "rt (TaskID raw) = Some task"
    "calls = executions c (matchedTasks rt pre) @ [Execute c task True]"
    by blast
  then have "calls = executions c (matchedTasks rt pre @ [task]) \<and>
    matchedTasks rt raws = (matchedTasks rt pre @ [task]) @ matchedTasks rt post"
    by (simp add: matchedTasks_append matchedTasks_Cons executions_def)
  then show ?thesis by blast
next
  case (Inr b)
  with assms mergeLoop_Inr [of ex c rt raws l w b w' calls]
  have "calls = executions c (matchedTasks rt raws) \<and> matchedTasks rt raws = matchedTasks rt raws @ []"
    by simp
  then show ?thesis by blast
qed

lemma mergeLoop_completes:
  "(\<And>raw t w. raw \<in> set raws \<Longrightarrow> rt (TaskID raw) = Some t \<Longrightarrow> \<exists>n w'. ex t True w = (Inr n, w')) \<Longrightarrow>
   \<exists>b w' calls. mergeLoop ex c rt raws l w = (Inr b, w', calls)"
proof (induction raws arbitrary: l w)
  case Nil
  then show ?case by simp
next
  case (Cons raw raws)
  have ih: "\<exists>b w' calls. mergeLoop ex c rt raws l' w0 = (Inr b, w', calls)" for l' w0
    by (rule Cons.IH) (rule Cons.prems, simp_all)
  show ?case
  proof (cases "rt (TaskID raw)")
    case None
    with ih [of "track raw l" w] show ?thesis by (simp add: track_def)
  next
    case (Some t)
    with Cons.prems [of raw t w] obtain n w0 where e: "ex t True w = (Inr n, w0)" by auto
    from ih [of "track raw l" w0] obtain b w' calls where
      "mergeLoop ex c rt raws (track raw l) w0 = (Inr b, w', calls)" by blast
    with Some e show ?thesis by (simp add: track_def)
  qed
qed

text \<open>The calls of a merge, for each way it can go after the executor was found.\<close>

lemma MergeMessages_read_error:
  "taskExecutors r c = Some ex \<Longrightarrow>
   readMessagesWithAckLevel r c l ps tok w = ((tasks, raws, token, Some err), w1, calls1) \<Longrightarrow>
   MergeMessages r c l ps tok w = (([], Some err), w1, calls1)"
  by (simp add: MergeMessages_def)

lemma MergeMessages_loop_error:
  "taskExecutors r c = Some ex \<Longrightarrow>
   readMessagesWithAckLevel r c l ps tok w = ((tasks, raws, token, None), w1, calls1) \<Longrightarrow>
   mergeLoop ex c (replicationTasksOf tasks) raws defaultBeginningMessageID w1 = (Inl err, w2, calls2) \<Longrightarrow>
   MergeMessages r c l ps tok w = (([], Some err), w2, calls1 @ calls2)"
  by (simp add: MergeMessages_def)

lemma MergeMessages_loop_done:
  "taskExecutors r c = Some ex \<Longrightarrow>
   readMessagesWithAckLevel r c l ps tok w = ((tasks, raws, token, None), w1, calls1) \<Longrightarrow>
   mergeLoop ex c (replicationTasksOf tasks) raws defaultBeginningMessageID w1 = (Inr b, w2, calls2) \<Longrightarrow>
   RangeDeleteReplicationTaskFromDLQ (GetExecutionManager (shard r)) (purgeRequest c b) w2 = (res, w3) \<Longrightarrow>
   MergeMessages r c l ps tok w =
     ((case res of Inl err \<Rightarrow> ([], Some err) | Inr n \<Rightarrow> (token, None)), w3,
      calls1 @ calls2 @ [RangeDelete (purgeRequest c b)])"
  by (cases res) (simp_all add: MergeMessages_def purgeRequest_def Let_def)

subsection \<open>Construction\<close>

text \<open>
  C8, as stated: constructing the handler with no executor at all, the mapping being
  absent or empty, is rejected at construction. The code rejects the absent (nil) mapping
  only: with an empty mapping the constructor returns a handler.
\<close>

theorem C8_empty_executors_counterexample:
  "NewDLQHandler (exampleShard (exampleStore []) (exampleClient [])) (Some Map.empty) =
     Inr \<lparr>taskExecutors = Map.empty,
          shard = exampleShard (exampleStore []) (exampleClient []),
          logger = Logger ''replication''\<rparr>"
  by (simp add: NewDLQHandler_def exampleShard_def)

text \<open>
  C8, amended: constructing the handler with an absent (nil) mapping panics at
  construction; every mapping that is not nil, the empty one too, is accepted, and on the
  handler built from the empty mapping every merge fails with the invalid-cluster error
  before any call to a collaborator.
\<close>

theorem C8_nil_executors_rejected:
  "NewDLQHandler sh None =
     Inl (Panic ''Failed to initialize replication DLQ handler due to nil task executors'') \<and>
   NewDLQHandler sh (Some m) = Inr \<lparr>taskExecutors = m, shard = sh, logger = GetLogger sh\<rparr> \<and>
   MergeMessages \<lparr>taskExecutors = Map.empty, shard = sh, logger = GetLogger sh\<rparr>
       sourceCluster lastMessageID pageSize pageToken w =
     (([], Some errInvalidCluster), w, [])"
  by (simp add: NewDLQHandler_def MergeMessages_def)

subsection \<open>Invalid clusters\<close>

text \<open>
  C3: a merge for a source cluster without a registered executor fails with the
  invalid-cluster error, and it does so before any store read, hydration call, executor
  invocation or delete: no call is made and the world is as it was.
\<close>

theorem C3_merge_invalid_cluster_before_io:
  "taskExecutors r sourceCluster = None \<Longrightarrow>
   MergeMessages r sourceCluster lastMessageID pageSize pageToken w =
     (([], Some errInvalidCluster), w, [])"
  by (simp add: MergeMessages_def)

theorem C3_merge_invalid_cluster_witness:
  "taskExecutors (exampleHandler (exampleStore []) (exampleClient [5, 9]) []) ''east'' = None \<and>
   MergeMessages (exampleHandler (exampleStore []) (exampleClient [5, 9]) []) ''east'' 9 10 []
       [entry 5, entry 7, entry 9] =
     (([], Some errInvalidCluster), [entry 5, entry 7, entry 9], [])"
proof -
  have h: "taskExecutors (exampleHandler (exampleStore []) (exampleClient [5, 9]) []) ''east'' = None"
    by (simp add: exampleHandler_def)
  from h C3_merge_invalid_cluster_before_io [OF h] show ?thesis by simp
qed

text \<open>
  C4, as stated: a read for a source cluster without a remote admin client returns the
  invalid-cluster error without any store I/O. In the code the store read comes first:
  the cluster \<open>east\<close> has no client, and the read for it still asks the store.
\<close>

theorem C4_read_invalid_cluster_counterexample:
  "GetRemoteAdminClient (shard (exampleHandler (exampleStore []) (exampleClient [5, 9]) [])) ''east'' = None \<and>
   ReadMessages (exampleHandler (exampleStore []) (exampleClient [5, 9]) []) ''east'' 9 10 []
       [entry 5, entry 7, entry 9] =
     (([], [], [], Some errInvalidCluster), [entry 5, entry 7, entry 9],
      [StoreRead (readRequest ''east'' 9 10 [])])"
  by (simp add: ReadMessages_def readMessagesWithAckLevel_def example_defs)

text \<open>
  C4, amended: a read for a source cluster without a remote admin client first reads the
  store, once; when that read fails the call returns the store's error, and when it
  succeeds the call returns the invalid-cluster error. In both cases the three results are
  nil and no hydration call is made.
\<close>

theorem C4_read_invalid_cluster_after_store_read:
  assumes "GetRemoteAdminClient (shard r) sourceCluster = None"
  shows "\<exists>res w1.
    GetReplicationTasksFromDLQ (GetExecutionManager (shard r))
        (readRequest sourceCluster lastMessageID pageSize pageToken) w = (res, w1) \<and>
    ReadMessages r sourceCluster lastMessageID pageSize pageToken w =
      (([], [], [], Some (case res of Inl err \<Rightarrow> err | Inr resp \<Rightarrow> errInvalidCluster)), w1,
       [StoreRead (readRequest sourceCluster lastMessageID pageSize pageToken)])"
proof (cases "GetReplicationTasksFromDLQ (GetExecutionManager (shard r))
        (readRequest sourceCluster lastMessageID pageSize pageToken) w")
  case (Pair res w1)
  show ?thesis
  proof (cases res)
    case (Inl err)
    with Pair readMessagesWithAckLevel_store_error [of r sourceCluster lastMessageID pageSize pageToken w err w1]
    show ?thesis by (simp add: ReadMessages_def)
  next
    case (Inr resp)
    with Pair assms readMessagesWithAckLevel_no_client [of r sourceCluster lastMessageID pageSize pageToken w resp w1]
    show ?thesis by (simp add: ReadMessages_def)
  qed
qed

theorem C4_read_invalid_cluster_witness:
  "GetRemoteAdminClient (shard (exampleHandler failingStore (exampleClient [5, 9]) [])) ''east'' = None \<and>
   ReadMessages (exampleHandler failingStore (exampleClient [5, 9]) []) ''east'' 9 10 [] [entry 5] =
     (([], [], [], Some (CollaboratorError ''store unavailable'')), [entry 5],
      [StoreRead (readRequest ''east'' 9 10 [])]) \<and>
   GetRemoteAdminClient (shard (exampleHandler (exampleStore []) (exampleClient [5, 9]) [])) ''east'' = None \<and>
   ReadMessages (exampleHandler (exampleStore []) (exampleClient [5, 9]) []) ''east'' 9 10 [] [entry 5] =
     (([], [], [], Some errInvalidCluster), [entry 5],
      [StoreRead (readRequest ''east'' 9 10 [])])"
proof -
  have h: "GetRemoteAdminClient (shard (exampleHandler failingStore (exampleClient [5, 9]) [])) ''east'' = None"
    by (simp add: exampleHandler_def exampleShard_def)
  have g: "GetRemoteAdminClient (shard (exampleHandler (exampleStore []) (exampleClient [5, 9]) [])) ''east'' = None"
    by (simp add: exampleHandler_def exampleShard_def)
  from h g C4_read_invalid_cluster_after_store_read [OF h, of 9 10 "[]" "[entry 5]"]
    C4_read_invalid_cluster_after_store_read [OF g, of 9 10 "[]" "[entry 5]"]
  show ?thesis by (simp add: exampleHandler_def exampleShard_def failingStore_def exampleStore_def)
qed

subsection \<open>Reading\<close>

text \<open>
  C5: when the remote hydration call fails, a read returns the hydration error and
  nothing else: the hydrated tasks, the lightweight entries and the page token are all
  nil, although the store had answered with a page. A merge whose read step fails so
  returns the same error, and executes and deletes nothing.
\<close>

theorem C5_hydration_failure_discards_page:
  assumes "GetReplicationTasksFromDLQ (GetExecutionManager (shard r))
             (readRequest sourceCluster lastMessageID pageSize pageToken) w = (Inr resp, w1)"
    and "resp_Tasks resp \<noteq> []"
    and "GetRemoteAdminClient (shard r) sourceCluster = Some client"
    and "client \<lparr>TaskInfos = map toTaskInfo (resp_Tasks resp)\<rparr> w1 = (Inl err, w2)"
  shows "ReadMessages r sourceCluster lastMessageID pageSize pageToken w =
           (([], [], [], Some err), w2,
            [StoreRead (readRequest sourceCluster lastMessageID pageSize pageToken),
             Hydrate sourceCluster \<lparr>TaskInfos = map toTaskInfo (resp_Tasks resp)\<rparr>]) \<and>
         (taskExecutors r sourceCluster \<noteq> None \<longrightarrow>
          MergeMessages r sourceCluster lastMessageID pageSize pageToken w =
           (([], Some err), w2,
            [StoreRead (readRequest sourceCluster lastMessageID pageSize pageToken),
             Hydrate sourceCluster \<lparr>TaskInfos = map toTaskInfo (resp_Tasks resp)\<rparr>]))"
proof -
  have rd: "readMessagesWithAckLevel r sourceCluster lastMessageID pageSize pageToken w =
           (([], [], [], Some err), w2,
            [StoreRead (readRequest sourceCluster lastMessageID pageSize pageToken),
             Hydrate sourceCluster \<lparr>TaskInfos = map toTaskInfo (resp_Tasks resp)\<rparr>])"
    using readMessagesWithAckLevel_hydrate [OF assms(1) assms(3) assms(2) assms(4)] by simp
  then show ?thesis
    by (auto simp: ReadMessages_def MergeMessages_def)
qed

theorem C5_hydration_failure_witness:
  "GetReplicationTasksFromDLQ (GetExecutionManager (shard (exampleHandler (exampleStore [1]) failingClient [])))
     (readRequest ''west'' 9 10 []) [entry 5, entry 7, entry 9] =
     (Inr \<lparr>resp_Tasks = [entry 5, entry 7, entry 9], resp_NextPageToken = [1]\<rparr>, [entry 5, entry 7, entry 9]) \<and>
   GetRemoteAdminClient (shard (exampleHandler (exampleStore [1]) failingClient [])) ''west'' = Some failingClient \<and>
   failingClient \<lparr>TaskInfos = map toTaskInfo [entry 5, entry 7, entry 9]\<rparr> [entry 5, entry 7, entry 9] =
     (Inl (CollaboratorError ''remote unavailable''), [entry 5, entry 7, entry 9]) \<and>
   ReadMessages (exampleHandler (exampleStore [1]) failingClient []) ''west'' 9 10 [] [entry 5, entry 7, entry 9] =
     (([], [], [], Some (CollaboratorError ''remote unavailable'')), [entry 5, entry 7, entry 9],
      [StoreRead (readRequest ''west'' 9 10 []),
       Hydrate ''west'' \<lparr>TaskInfos = map toTaskInfo [entry 5, entry 7, entry 9]\<rparr>]) \<and>
   MergeMessages (exampleHandler (exampleStore [1]) failingClient []) ''west'' 9 10 [] [entry 5, entry 7, entry 9] =
     (([], Some (CollaboratorError ''remote unavailable'')), [entry 5, entry 7, entry 9],
      [StoreRead (readRequest ''west'' 9 10 []),
       Hydrate ''west'' \<lparr>TaskInfos = map toTaskInfo [entry 5, entry 7, entry 9]\<rparr>])"
proof -
  let ?h = "exampleHandler (exampleStore [1]) failingClient []"
  let ?dlq = "[entry 5, entry 7, entry 9]"
  let ?resp = "\<lparr>resp_Tasks = ?dlq, resp_NextPageToken = [1]\<rparr>"
  have h1: "GetReplicationTasksFromDLQ (GetExecutionManager (shard ?h))
     (readRequest ''west'' 9 10 []) ?dlq = (Inr ?resp, ?dlq)"
    by (simp add: example_defs)
  have h2: "resp_Tasks ?resp \<noteq> []" by simp
  have h3: "GetRemoteAdminClient (shard ?h) ''west'' = Some failingClient"
    by (simp add: exampleHandler_def exampleShard_def)
  have h4: "failingClient \<lparr>TaskInfos = map toTaskInfo (resp_Tasks ?resp)\<rparr> ?dlq =
     (Inl (CollaboratorError ''remote unavailable''), ?dlq)"
    by (simp add: failingClient_def)
  have h5: "taskExecutors ?h ''west'' \<noteq> None" by (simp add: exampleHandler_def)
  from C5_hydration_failure_discards_page [OF h1 h2 h3 h4] h1 h3 h4 h5 show ?thesis by simp
qed

text \<open>
  C6: when the store read of a read returns an empty page, no hydration call is made, for
  any source cluster: the store read is the only call and the world is as the store left
  it; for a source cluster with a remote admin client the read then returns no hydrated
  task, the empty list of lightweight entries and the store's next page token, with no
  error. When the page is not empty, the read of a source cluster with a remote admin
  client calls that client exactly once, after the store read, with the whole batch of
  lightweight entries, and returns what the client answers: its tasks with the entries
  and the store's token, or its error.
\<close>

theorem C6_read_hydrates_nonempty_pages_once:
  assumes "GetReplicationTasksFromDLQ (GetExecutionManager (shard r))
             (readRequest sourceCluster lastMessageID pageSize pageToken) w = (Inr resp, w1)"
  shows "(resp_Tasks resp = [] \<longrightarrow>
            snd (ReadMessages r sourceCluster lastMessageID pageSize pageToken w) =
              (w1, [StoreRead (readRequest sourceCluster lastMessageID pageSize pageToken)]) \<and>
            (GetRemoteAdminClient (shard r) sourceCluster \<noteq> None \<longrightarrow>
               ReadMessages r sourceCluster lastMessageID pageSize pageToken w =
                 (([], [], resp_NextPageToken resp, None), w1,
                  [StoreRead (readRequest sourceCluster lastMessageID pageSize pageToken)]))) \<and>
         (\<forall>client res w2.
            resp_Tasks resp \<noteq> [] \<longrightarrow>
            GetRemoteAdminClient (shard r) sourceCluster = Some client \<longrightarrow>
            client \<lparr>TaskInfos = map toTaskInfo (resp_Tasks resp)\<rparr> w1 = (res, w2) \<longrightarrow>
            ReadMessages r sourceCluster lastMessageID pageSize pageToken w =
              ((case res of
                  Inl err \<Rightarrow> ([], [], [], Some err)
                | Inr response \<Rightarrow>
                    (ReplicationTasks response, map toTaskInfo (resp_Tasks resp),
                     resp_NextPageToken resp, None)),
               w2,
               [StoreRead (readRequest sourceCluster lastMessageID pageSize pageToken),
                Hydrate sourceCluster \<lparr>TaskInfos = map toTaskInfo (resp_Tasks resp)\<rparr>]))"
proof -
  have empty: "snd (ReadMessages r sourceCluster lastMessageID pageSize pageToken w) =
                 (w1, [StoreRead (readRequest sourceCluster lastMessageID pageSize pageToken)])"
    if "resp_Tasks resp = []"
  proof (cases "GetRemoteAdminClient (shard r) sourceCluster")
    case None
    from readMessagesWithAckLevel_no_client [OF assms None] show ?thesis
      by (simp add: ReadMessages_def)
  next
    case (Some client)
    from readMessagesWithAckLevel_empty_page [OF assms Some that] show ?thesis
      by (simp add: ReadMessages_def)
  qed
  have empty_client: "ReadMessages r sourceCluster lastMessageID pageSize pageToken w =
                 (([], [], resp_NextPageToken resp, None), w1,
                  [StoreRead (readRequest sourceCluster lastMessageID pageSize pageToken)])"
    if "resp_Tasks resp = []" "GetRemoteAdminClient (shard r) sourceCluster \<noteq> None"
  proof -
    from that(2) obtain client where "GetRemoteAdminClient (shard r) sourceCluster = Some client"
      by auto
    from readMessagesWithAckLevel_empty_page [OF assms this that(1)] show ?thesis
      by (simp add: ReadMessages_def)
  qed
  have full: "ReadMessages r sourceCluster lastMessageID pageSize pageToken w =
              ((case res of
                  Inl err \<Rightarrow> ([], [], [], Some err)
                | Inr response \<Rightarrow>
                    (ReplicationTasks response, map toTaskInfo (resp_Tasks resp),
                     resp_NextPageToken resp, None)),
               w2,
               [StoreRead (readRequest sourceCluster lastMessageID pageSize pageToken),
                Hydrate sourceCluster \<lparr>TaskInfos = map toTaskInfo (resp_Tasks resp)\<rparr>])"
    if "resp_Tasks resp \<noteq> []" "GetRemoteAdminClient (shard r) sourceCluster = Some client"
       "client \<lparr>TaskInfos = map toTaskInfo (resp_Tasks resp)\<rparr> w1 = (res, w2)" for client res w2
    using readMessagesWithAckLevel_hydrate [OF assms that(2) that(1) that(3)]
    by (simp add: ReadMessages_def)
  from empty empty_client full show ?thesis by blast
qed

theorem C6_read_hydrates_witness:
  "ReadMessages (exampleHandler (exampleStore [1]) (exampleClient [5, 9]) []) ''west'' 9 10 [] [] =
     (([], [], [1], None), [], [StoreRead (readRequest ''west'' 9 10 [])]) \<and>
   ReadMessages (exampleHandler (exampleStore [1]) (exampleClient [5, 9]) []) ''west'' 9 10 []
       [entry 5, entry 7, entry 9] =
     (([hydrated 5, hydrated 9], map toTaskInfo [entry 5, entry 7, entry 9], [1], None),
      [entry 5, entry 7, entry 9],
      [StoreRead (readRequest ''west'' 9 10 []),
       Hydrate ''west'' \<lparr>TaskInfos = map toTaskInfo [entry 5, entry 7, entry 9]\<rparr>])"
proof -
  let ?h = "exampleHandler (exampleStore [1]) (exampleClient [5, 9]) []"
  let ?dlq = "[entry 5, entry 7, entry 9]"
  let ?resp = "\<lparr>resp_Tasks = ?dlq, resp_NextPageToken = [1]\<rparr>"
  have e1: "GetReplicationTasksFromDLQ (GetExecutionManager (shard ?h))
     (readRequest ''west'' 9 10 []) [] = (Inr \<lparr>resp_Tasks = [], resp_NextPageToken = [1]\<rparr>, [])"
    by (simp add: example_defs)
  have n1: "GetReplicationTasksFromDLQ (GetExecutionManager (shard ?h))
     (readRequest ''west'' 9 10 []) ?dlq = (Inr ?resp, ?dlq)"
    by (simp add: example_defs)
  have cl: "GetRemoteAdminClient (shard ?h) ''west'' = Some (exampleClient [5, 9])"
    by (simp add: exampleHandler_def exampleShard_def)
  have hy: "exampleClient [5, 9] \<lparr>TaskInfos = map toTaskInfo (resp_Tasks ?resp)\<rparr> ?dlq =
     (Inr \<lparr>ReplicationTasks = [hydrated 5, hydrated 9]\<rparr>, ?dlq)"
    by (simp add: example_defs)
  have ne: "resp_Tasks ?resp \<noteq> []" by simp
  from C6_read_hydrates_nonempty_pages_once [OF e1] cl
  have a: "ReadMessages ?h ''west'' 9 10 [] [] =
     (([], [], [1], None), [], [StoreRead (readRequest ''west'' 9 10 [])])"
    by simp
  from C6_read_hydrates_nonempty_pages_once [OF n1] ne cl hy
  have b: "ReadMessages ?h ''west'' 9 10 [] ?dlq =
     (([hydrated 5, hydrated 9], map toTaskInfo ?dlq, [1], None), ?dlq,
      [StoreRead (readRequest ''west'' 9 10 []), Hydrate ''west'' \<lparr>TaskInfos = map toTaskInfo ?dlq\<rparr>])"
    by (simp del: list.map)
  from a b show ?thesis by simp
qed

subsection \<open>Purging\<close>

text \<open>
  C7: a purge makes exactly one call, a range delete on the store for the source cluster
  with the beginning sentinel as exclusive lower bound and the given id as inclusive
  upper bound; it makes no hydration call and no executor call. It returns the store's
  error when the delete fails and nil when it succeeds.
\<close>

theorem C7_purge_single_range_delete:
  "\<exists>res w1.
     RangeDeleteReplicationTaskFromDLQ (GetExecutionManager (shard r))
       \<lparr>del_SourceClusterName = sourceCluster, ExclusiveBeginTaskID = - 1,
        InclusiveEndTaskID = lastMessageID\<rparr> w = (res, w1) \<and>
     PurgeMessages r sourceCluster lastMessageID w =
       ((case res of Inl err \<Rightarrow> Some err | Inr n \<Rightarrow> None), w1,
        [RangeDelete \<lparr>del_SourceClusterName = sourceCluster, ExclusiveBeginTaskID = - 1,
                      InclusiveEndTaskID = lastMessageID\<rparr>])"
  by (cases "RangeDeleteReplicationTaskFromDLQ (GetExecutionManager (shard r))
       \<lparr>del_SourceClusterName = sourceCluster, ExclusiveBeginTaskID = - 1,
        InclusiveEndTaskID = lastMessageID\<rparr> w")
     (auto simp: PurgeMessages_def defaultBeginningMessageID_def split: sum.splits)

subsection \<open>Merging\<close>

text \<open>
  C1: take a merge for a source cluster with an executor whose store read succeeds, whose
  hydration call, made when the page has an entry, succeeds, and in which every forced
  executor call, made in page order for the entries of the page that have a hydrated
  task, succeeds. That merge makes these calls and no other, in this order: the store
  read, the hydration call, the executor calls, and then exactly one range delete on the
  store, applied to the world the last executor call left. It returns the store's next
  page token when the delete succeeds and the delete's error otherwise. The inclusive
  upper bound of the delete is the running maximum of the loop: it is at least the
  \<open>TaskID\<close> of every entry of the page, with or without a hydrated task, and it is the
  sentinel or the \<open>TaskID\<close> of an entry; so it is the greatest \<open>TaskID\<close> of the page as
  soon as the page has an entry whose id is not below the sentinel, which the range of
  the store read asks of every entry.
\<close>

theorem C1_merge_purges_through_page_maximum:
  assumes "taskExecutors r sourceCluster = Some executor"
    and "GetReplicationTasksFromDLQ (GetExecutionManager (shard r))
           (readRequest sourceCluster lastMessageID pageSize pageToken) w = (Inr resp, w0)"
    and "GetRemoteAdminClient (shard r) sourceCluster = Some client"
    and "if resp_Tasks resp = [] then tasks = [] \<and> w1 = w0
         else client \<lparr>TaskInfos = map toTaskInfo (resp_Tasks resp)\<rparr> w0 =
                (Inr \<lparr>ReplicationTasks = tasks\<rparr>, w1)"
    and "executeAll executor
           (matchedTasks (replicationTasksOf tasks) (map toTaskInfo (resp_Tasks resp))) w1 = (None, w2)"
  shows "\<exists>bound res w3.
     RangeDeleteReplicationTaskFromDLQ (GetExecutionManager (shard r))
       \<lparr>del_SourceClusterName = sourceCluster, ExclusiveBeginTaskID = - 1,
        InclusiveEndTaskID = bound\<rparr> w2 = (res, w3) \<and>
     MergeMessages r sourceCluster lastMessageID pageSize pageToken w =
       ((case res of Inl err \<Rightarrow> ([], Some err) | Inr n \<Rightarrow> (resp_NextPageToken resp, None)), w3,
        StoreRead (readRequest sourceCluster lastMessageID pageSize pageToken) #
        (if resp_Tasks resp = [] then []
         else [Hydrate sourceCluster \<lparr>TaskInfos = map toTaskInfo (resp_Tasks resp)\<rparr>]) @
        executions sourceCluster
          (matchedTasks (replicationTasksOf tasks) (map toTaskInfo (resp_Tasks resp))) @
        [RangeDelete \<lparr>del_SourceClusterName = sourceCluster, ExclusiveBeginTaskID = - 1,
                      InclusiveEndTaskID = bound\<rparr>]) \<and>
     filter is_RangeDelete
       (snd (snd (MergeMessages r sourceCluster lastMessageID pageSize pageToken w))) =
       [RangeDelete \<lparr>del_SourceClusterName = sourceCluster, ExclusiveBeginTaskID = - 1,
                     InclusiveEndTaskID = bound\<rparr>] \<and>
     (\<forall>e\<in>set (resp_Tasks resp). p_TaskID e \<le>s bound) \<and>
     (bound = - 1 \<or> bound \<in> p_TaskID ` set (resp_Tasks resp)) \<and>
     ((\<exists>e\<in>set (resp_Tasks resp). - 1 \<le>s p_TaskID e) \<longrightarrow> bound \<in> p_TaskID ` set (resp_Tasks resp))"
proof -
  let ?req = "readRequest sourceCluster lastMessageID pageSize pageToken"
  let ?raws = "map toTaskInfo (resp_Tasks resp)"
  let ?rt = "replicationTasksOf tasks"
  let ?calls1 = "StoreRead ?req #
        (if resp_Tasks resp = [] then [] else [Hydrate sourceCluster \<lparr>TaskInfos = ?raws\<rparr>])"
  define bound where "bound = fold track ?raws defaultBeginningMessageID"
  let ?del = "RangeDelete \<lparr>del_SourceClusterName = sourceCluster, ExclusiveBeginTaskID = - 1,
                           InclusiveEndTaskID = bound\<rparr>"
  have ids: "TaskID ` set ?raws = p_TaskID ` set (resp_Tasks resp)"
    by (force simp: toTaskInfo_def)
  have rd: "readMessagesWithAckLevel r sourceCluster lastMessageID pageSize pageToken w =
              ((tasks, ?raws, resp_NextPageToken resp, None), w1, ?calls1)"
  proof (cases "resp_Tasks resp = []")
    case True
    with assms(4) have "tasks = []" "w1 = w0" by simp_all
    with readMessagesWithAckLevel_empty_page [OF assms(2) assms(3) True] True show ?thesis
      by simp
  next
    case False
    with assms(4) have "client \<lparr>TaskInfos = ?raws\<rparr> w0 = (Inr \<lparr>ReplicationTasks = tasks\<rparr>, w1)"
      by simp
    from readMessagesWithAckLevel_hydrate [OF assms(2) assms(3) False this] False show ?thesis
      by simp
  qed
  have lp: "mergeLoop executor sourceCluster ?rt ?raws defaultBeginningMessageID w1 =
              (Inr bound, w2, executions sourceCluster (matchedTasks ?rt ?raws))"
    unfolding bound_def by (rule mergeLoop_executeAll [OF assms(5)])
  obtain res w3 where d: "RangeDeleteReplicationTaskFromDLQ (GetExecutionManager (shard r))
       (purgeRequest sourceCluster bound) w2 = (res, w3)"
    by (cases "RangeDeleteReplicationTaskFromDLQ (GetExecutionManager (shard r))
       (purgeRequest sourceCluster bound) w2")
  have pr: "purgeRequest sourceCluster bound =
     \<lparr>del_SourceClusterName = sourceCluster, ExclusiveBeginTaskID = - 1, InclusiveEndTaskID = bound\<rparr>"
    by (simp add: purgeRequest_def defaultBeginningMessageID_def)
  have res: "MergeMessages r sourceCluster lastMessageID pageSize pageToken w =
       ((case res of Inl err \<Rightarrow> ([], Some err) | Inr n \<Rightarrow> (resp_NextPageToken resp, None)), w3,
        ?calls1 @ executions sourceCluster (matchedTasks ?rt ?raws) @ [?del])"
    using MergeMessages_loop_done [OF assms(1) rd lp d] pr by simp
  have one: "filter is_RangeDelete
       (snd (snd (MergeMessages r sourceCluster lastMessageID pageSize pageToken w))) = [?del]"
    by (simp add: res executions_no_RangeDelete)
  have upper: "\<forall>e\<in>set (resp_Tasks resp). p_TaskID e \<le>s bound"
  proof
    fix e assume "e \<in> set (resp_Tasks resp)"
    then have "toTaskInfo e \<in> set ?raws" by simp
    from track_upper [OF this, of defaultBeginningMessageID] show "p_TaskID e \<le>s bound"
      by (simp add: bound_def toTaskInfo_def)
  qed
  have mem: "bound = - 1 \<or> bound \<in> p_TaskID ` set (resp_Tasks resp)"
    using track_mem [of ?raws defaultBeginningMessageID] ids
    by (simp add: bound_def defaultBeginningMessageID_def)
  have greatest: "bound \<in> p_TaskID ` set (resp_Tasks resp)"
    if "\<exists>e\<in>set (resp_Tasks resp). - 1 \<le>s p_TaskID e"
  proof (cases "bound = - 1")
    case False
    with mem show ?thesis by simp
  next
    case True
    from that obtain e where e: "e \<in> set (resp_Tasks resp)" "- 1 \<le>s p_TaskID e" by blast
    with upper True have "sint (p_TaskID e) = sint (- 1 :: int64)"
      by (auto simp: word_sle_eq)
    then have "p_TaskID e = - 1"
      by (rule signed_word_eqI)
    with e True show ?thesis by force
  qed
  have d': "RangeDeleteReplicationTaskFromDLQ (GetExecutionManager (shard r))
       \<lparr>del_SourceClusterName = sourceCluster, ExclusiveBeginTaskID = - 1,
        InclusiveEndTaskID = bound\<rparr> w2 = (res, w3)"
    using d pr by simp
  have res': "MergeMessages r sourceCluster lastMessageID pageSize pageToken w =
       ((case res of Inl err \<Rightarrow> ([], Some err) | Inr n \<Rightarrow> (resp_NextPageToken resp, None)), w3,
        StoreRead ?req #
        (if resp_Tasks resp = [] then [] else [Hydrate sourceCluster \<lparr>TaskInfos = ?raws\<rparr>]) @
        executions sourceCluster (matchedTasks ?rt ?raws) @ [?del])"
    using res by simp
  have greatest': "(\<exists>e\<in>set (resp_Tasks resp). - 1 \<le>s p_TaskID e) \<longrightarrow>
      bound \<in> p_TaskID ` set (resp_Tasks resp)"
    using greatest by blast
  show ?thesis
    by (rule exI [of _ bound], rule exI [of _ res], rule exI [of _ w3])
       (intro conjI d' res' one upper mem greatest')
qed

theorem C1_merge_purges_witness:
  "taskExecutors (journalHandler [5, 9] []) ''west'' = Some (journalExecutor []) \<and>
   GetReplicationTasksFromDLQ (GetExecutionManager (shard (journalHandler [5, 9] [])))
       (readRequest ''west'' 9 10 []) ([entry 5, entry 7, entry 9], []) =
     (Inr \<lparr>resp_Tasks = [entry 5, entry 7, entry 9], resp_NextPageToken = [1]\<rparr>,
      [entry 5, entry 7, entry 9], []) \<and>
   GetRemoteAdminClient (shard (journalHandler [5, 9] [])) ''west'' = Some (onDLQ (exampleClient [5, 9])) \<and>
   onDLQ (exampleClient [5, 9]) \<lparr>TaskInfos = map toTaskInfo [entry 5, entry 7, entry 9]\<rparr>
       ([entry 5, entry 7, entry 9], []) =
     (Inr \<lparr>ReplicationTasks = [hydrated 5, hydrated 9]\<rparr>, [entry 5, entry 7, entry 9], []) \<and>
   executeAll (journalExecutor []) [hydrated 5, hydrated 9] ([entry 5, entry 7, entry 9], []) =
     (None, [entry 5, entry 7, entry 9], [5, 9]) \<and>
   RangeDeleteReplicationTaskFromDLQ (GetExecutionManager (shard (journalHandler [5, 9] [])))
       \<lparr>del_SourceClusterName = ''west'', ExclusiveBeginTaskID = - 1, InclusiveEndTaskID = 9\<rparr>
       ([entry 5, entry 7, entry 9], [5, 9]) = (Inr 3, [], [5, 9]) \<and>
   MergeMessages (journalHandler [5, 9] []) ''west'' 9 10 [] ([entry 5, entry 7, entry 9], []) =
     (([1], None), ([], [5, 9]),
      [StoreRead (readRequest ''west'' 9 10 []),
       Hydrate ''west'' \<lparr>TaskInfos = map toTaskInfo [entry 5, entry 7, entry 9]\<rparr>,
       Execute ''west'' (hydrated 5) True,
       Execute ''west'' (hydrated 9) True,
       RangeDelete \<lparr>del_SourceClusterName = ''west'', ExclusiveBeginTaskID = - 1,
                    InclusiveEndTaskID = 9\<rparr>])"
proof -
  let ?h = "journalHandler [5, 9] []"
  let ?dlq = "[entry 5, entry 7, entry 9]"
  let ?resp = "\<lparr>resp_Tasks = ?dlq, resp_NextPageToken = [1]\<rparr>"
  let ?tasks = "[hydrated 5, hydrated 9]"
  have h1: "taskExecutors ?h ''west'' = Some (journalExecutor [])"
    by (simp add: journalHandler_def)
  have h2: "GetReplicationTasksFromDLQ (GetExecutionManager (shard ?h))
       (readRequest ''west'' 9 10 []) (?dlq, []) = (Inr ?resp, ?dlq, [])"
    by (simp add: journalHandler_def onDLQ_def example_defs)
  have h3: "GetRemoteAdminClient (shard ?h) ''west'' = Some (onDLQ (exampleClient [5, 9]))"
    by (simp add: journalHandler_def)
  have hy: "onDLQ (exampleClient [5, 9]) \<lparr>TaskInfos = map toTaskInfo ?dlq\<rparr> (?dlq, []) =
     (Inr \<lparr>ReplicationTasks = ?tasks\<rparr>, ?dlq, [])"
    by (simp add: onDLQ_def example_defs)
  have h4: "if resp_Tasks ?resp = [] then ?tasks = [] \<and> (?dlq, []) = (?dlq, [])
     else onDLQ (exampleClient [5, 9]) \<lparr>TaskInfos = map toTaskInfo (resp_Tasks ?resp)\<rparr> (?dlq, []) =
            (Inr \<lparr>ReplicationTasks = ?tasks\<rparr>, ?dlq, [])"
    using hy by simp
  have m: "matchedTasks (replicationTasksOf ?tasks) (map toTaskInfo (resp_Tasks ?resp)) = ?tasks"
    by (simp add: matchedTasks_def replicationTasksOf_def example_defs)
  have ea: "executeAll (journalExecutor []) ?tasks (?dlq, []) = (None, ?dlq, [5, 9])"
    by (simp add: journalExecutor_def hydrated_def)
  have h5: "executeAll (journalExecutor [])
     (matchedTasks (replicationTasksOf ?tasks) (map toTaskInfo (resp_Tasks ?resp))) (?dlq, []) =
     (None, ?dlq, [5, 9])"
    using m ea by simp
  have del: "RangeDeleteReplicationTaskFromDLQ (GetExecutionManager (shard ?h))
       \<lparr>del_SourceClusterName = ''west'', ExclusiveBeginTaskID = - 1, InclusiveEndTaskID = 9\<rparr>
       (?dlq, [5, 9]) = (Inr 3, [], [5, 9])"
    by (simp add: journalHandler_def onDLQ_def example_defs)
  from C1_merge_purges_through_page_maximum [OF h1 h2 h3 h4 h5]
  obtain bound res w3 where
    d: "RangeDeleteReplicationTaskFromDLQ (GetExecutionManager (shard ?h))
       \<lparr>del_SourceClusterName = ''west'', ExclusiveBeginTaskID = - 1,
        InclusiveEndTaskID = bound\<rparr> (?dlq, [5, 9]) = (res, w3)" and
    mm: "MergeMessages ?h ''west'' 9 10 [] (?dlq, []) =
       ((case res of Inl err \<Rightarrow> ([], Some err) | Inr n \<Rightarrow> (resp_NextPageToken ?resp, None)), w3,
        StoreRead (readRequest ''west'' 9 10 []) #
        (if resp_Tasks ?resp = [] then []
         else [Hydrate ''west'' \<lparr>TaskInfos = map toTaskInfo (resp_Tasks ?resp)\<rparr>]) @
        executions ''west'' (matchedTasks (replicationTasksOf ?tasks) (map toTaskInfo (resp_Tasks ?resp))) @
        [RangeDelete \<lparr>del_SourceClusterName = ''west'', ExclusiveBeginTaskID = - 1,
                      InclusiveEndTaskID = bound\<rparr>])" and
    up: "\<forall>e\<in>set (resp_Tasks ?resp). p_TaskID e \<le>s bound" and
    gr: "(\<exists>e\<in>set (resp_Tasks ?resp). - 1 \<le>s p_TaskID e) \<longrightarrow> bound \<in> p_TaskID ` set (resp_Tasks ?resp)"
    by blast
  have "bound \<in> {5, 7, 9}"
    using gr by (simp add: entry_def word_sle_eq)
  moreover have "9 \<le>s bound"
    using up by (simp add: entry_def)
  ultimately have b: "bound = 9"
    by (auto simp: word_sle_eq)
  from d del b have r: "res = Inr 3" "w3 = ([], [5, 9])" by simp_all
  from mm b r m have "MergeMessages ?h ''west'' 9 10 [] (?dlq, []) =
     (([1], None), ([], [5, 9]),
      [StoreRead (readRequest ''west'' 9 10 []),
       Hydrate ''west'' \<lparr>TaskInfos = map toTaskInfo ?dlq\<rparr>,
       Execute ''west'' (hydrated 5) True,
       Execute ''west'' (hydrated 9) True,
       RangeDelete \<lparr>del_SourceClusterName = ''west'', ExclusiveBeginTaskID = - 1,
                    InclusiveEndTaskID = 9\<rparr>])"
    by (simp add: executions_def)
  with h1 h2 h3 hy ea del show ?thesis by (simp only:)
qed



text \<open>
  C10: every executor call of a merge is a forced call, for the source cluster of the
  merge, on a hydrated task of the page whose \<open>SourceTaskID\<close> is the \<open>TaskID\<close> of a
  lightweight entry of the page; a hydrated task whose id is the id of no entry is never
  executed. When the entries of the page have distinct ids, no id is executed twice, so
  an entry triggers at most one executor call; in any case there are at most as many
  executor calls as entries.
\<close>

theorem C10_merge_executes_matched_entries_once:
  assumes "readMessagesWithAckLevel r sourceCluster lastMessageID pageSize pageToken w =
             ((tasks, rawTasks, token, err), w1, calls1)"
  shows "(\<forall>c t forced.
            Execute c t forced \<in>
              set (snd (snd (MergeMessages r sourceCluster lastMessageID pageSize pageToken w))) \<longrightarrow>
            c = sourceCluster \<and> forced \<and> t \<in> set tasks \<and> SourceTaskID t \<in> TaskID ` set rawTasks) \<and>
         (distinct (map TaskID rawTasks) \<longrightarrow>
            distinct (executedIDs
              (snd (snd (MergeMessages r sourceCluster lastMessageID pageSize pageToken w))))) \<and>
         length (executedIDs
              (snd (snd (MergeMessages r sourceCluster lastMessageID pageSize pageToken w))))
           \<le> length rawTasks"
proof -
  let ?rt = "replicationTasksOf tasks"
  let ?log = "snd (snd (MergeMessages r sourceCluster lastMessageID pageSize pageToken w))"
  have key: "\<And>i t. ?rt i = Some t \<Longrightarrow> SourceTaskID t = i"
    by (simp add: replicationTasksOf_Some)
  have c1: "executedIDs calls1 = [] \<and> (\<forall>c t f. Execute c t f \<notin> set calls1)"
    using readMessagesWithAckLevel_calls [OF assms, THEN conjunct1] by auto
  have shape: "\<exists>ts rest tail. ?log = calls1 @ executions sourceCluster ts @ tail \<and>
      matchedTasks ?rt rawTasks = ts @ rest \<and> executedIDs tail = [] \<and>
      (\<forall>c t f. Execute c t f \<notin> set tail) \<or> ?log = []"
  proof (cases "taskExecutors r sourceCluster")
    case None
    then show ?thesis by (simp add: MergeMessages_def)
  next
    case (Some ex)
    show ?thesis
    proof (cases err)
      case (Some e)
      with assms \<open>taskExecutors r sourceCluster = Some ex\<close>
      have "?log = calls1 @ executions sourceCluster [] @ []"
        by (simp add: MergeMessages_def executions_def)
      then have "?log = calls1 @ executions sourceCluster [] @ [] \<and>
        matchedTasks ?rt rawTasks = [] @ matchedTasks ?rt rawTasks \<and> executedIDs [] = [] \<and>
        (\<forall>c t f. Execute c t f \<notin> set [])" by simp
      then show ?thesis by blast
    next
      case None
      obtain res w2 calls2 where
        lp: "mergeLoop ex sourceCluster ?rt rawTasks defaultBeginningMessageID w1 = (res, w2, calls2)"
        by (cases "mergeLoop ex sourceCluster ?rt rawTasks defaultBeginningMessageID w1") auto
      from mergeLoop_calls_prefix [OF lp] obtain ts rest where
        ts: "calls2 = executions sourceCluster ts" "matchedTasks ?rt rawTasks = ts @ rest" by blast
      have rd: "readMessagesWithAckLevel r sourceCluster lastMessageID pageSize pageToken w =
             ((tasks, rawTasks, token, None), w1, calls1)"
        using assms None by simp
      show ?thesis
      proof (cases res)
        case (Inl e)
        with MergeMessages_loop_error [OF Some rd] lp
        have "?log = calls1 @ executions sourceCluster ts @ []"
          by (simp add: ts)
        with ts show ?thesis by force
      next
        case (Inr b)
        obtain dres w3 where d: "RangeDeleteReplicationTaskFromDLQ (GetExecutionManager (shard r))
            (purgeRequest sourceCluster b) w2 = (dres, w3)"
          by (cases "RangeDeleteReplicationTaskFromDLQ (GetExecutionManager (shard r))
            (purgeRequest sourceCluster b) w2")
        from Inr lp have lp': "mergeLoop ex sourceCluster ?rt rawTasks defaultBeginningMessageID w1 =
          (Inr b, w2, calls2)" by simp
        from MergeMessages_loop_done [OF Some rd lp' d]
        have "?log = calls1 @ executions sourceCluster ts @ [RangeDelete (purgeRequest sourceCluster b)]"
          by (simp add: ts)
        with ts have "?log = calls1 @ executions sourceCluster ts @ [RangeDelete (purgeRequest sourceCluster b)] \<and>
          matchedTasks ?rt rawTasks = ts @ rest \<and>
          executedIDs [RangeDelete (purgeRequest sourceCluster b)] = [] \<and>
          (\<forall>c t f. Execute c t f \<notin> set [RangeDelete (purgeRequest sourceCluster b)])"
          by simp
        then show ?thesis by blast
      qed
    qed
  qed
  show ?thesis
  proof (cases "?log = []")
    case True
    then show ?thesis by simp
  next
    case False
    with shape obtain ts rest tail where
      log: "?log = calls1 @ executions sourceCluster ts @ tail" and
      pre: "matchedTasks ?rt rawTasks = ts @ rest" and
      tail: "executedIDs tail = []" "\<forall>c t f. Execute c t f \<notin> set tail"
      by blast
    have ids: "executedIDs ?log = map SourceTaskID ts"
      by (simp add: log executedIDs_append executedIDs_executions c1 tail)
    have all: "map SourceTaskID (ts @ rest) = filter (\<lambda>i. ?rt i \<noteq> None) (map TaskID rawTasks)"
      using matchedTasks_ids [of ?rt rawTasks] key pre by simp
    have d: "distinct (map SourceTaskID ts)" if "distinct (map TaskID rawTasks)"
    proof -
      from that have "distinct (filter (\<lambda>i. ?rt i \<noteq> None) (map TaskID rawTasks))" by simp
      with all have "distinct (map SourceTaskID ts @ map SourceTaskID rest)" by simp
      then show ?thesis by simp
    qed
    have len: "length (map SourceTaskID ts) \<le> length rawTasks"
    proof -
      have "length (map SourceTaskID (ts @ rest)) \<le> length (map TaskID rawTasks)"
        unfolding all by (rule length_filter_le)
      then show ?thesis by simp
    qed
    have ex: "c = sourceCluster \<and> forced \<and> t \<in> set tasks \<and> SourceTaskID t \<in> TaskID ` set rawTasks"
      if "Execute c t forced \<in> set ?log" for c t forced
    proof -
      from that log c1 tail have "Execute c t forced \<in> set (executions sourceCluster ts)"
        by auto
      then have e: "c = sourceCluster" "forced" "t \<in> set ts"
        by (auto simp: executions_def)
      then have "t \<in> set (matchedTasks ?rt rawTasks)" using pre by simp
      from matchedTasks_mem [OF this] obtain raw where
        raw: "raw \<in> set rawTasks" "?rt (TaskID raw) = Some t" by blast
      from replicationTasksOf_Some [OF raw(2)] raw(1) e show ?thesis by force
    qed
    from ids d len ex show ?thesis by (simp only:) blast
  qed
qed

theorem C10_merge_executes_matched_witness:
  "readMessagesWithAckLevel (exampleHandler (exampleStore [1]) strayClient []) ''west'' 9 10 []
       [entry 5, entry 7, entry 9] =
     (([hydrated 5, hydrated 6, hydrated 9], map toTaskInfo [entry 5, entry 7, entry 9], [1], None),
      [entry 5, entry 7, entry 9],
      [StoreRead (readRequest ''west'' 9 10 []),
       Hydrate ''west'' \<lparr>TaskInfos = map toTaskInfo [entry 5, entry 7, entry 9]\<rparr>]) \<and>
   distinct (map TaskID (map toTaskInfo [entry 5, entry 7, entry 9])) \<and>
   executedIDs (snd (snd (MergeMessages (exampleHandler (exampleStore [1]) strayClient []) ''west'' 9 10 []
       [entry 5, entry 7, entry 9]))) = [5, 9] \<and>
   Execute ''west'' (hydrated 6) True \<notin>
     set (snd (snd (MergeMessages (exampleHandler (exampleStore [1]) strayClient []) ''west'' 9 10 []
       [entry 5, entry 7, entry 9])))"
proof -
  let ?h = "exampleHandler (exampleStore [1]) strayClient []"
  let ?dlq = "[entry 5, entry 7, entry 9]"
  let ?log = "snd (snd (MergeMessages ?h ''west'' 9 10 [] ?dlq))"
  have h: "readMessagesWithAckLevel ?h ''west'' 9 10 [] ?dlq =
     (([hydrated 5, hydrated 6, hydrated 9], map toTaskInfo ?dlq, [1], None), ?dlq,
      [StoreRead (readRequest ''west'' 9 10 []), Hydrate ''west'' \<lparr>TaskInfos = map toTaskInfo ?dlq\<rparr>])"
    by (simp add: readMessagesWithAckLevel_def example_defs)
  have d: "distinct (map TaskID (map toTaskInfo ?dlq))"
    by (simp add: example_defs)
  have ids: "executedIDs ?log = [5, 9]"
    by (simp add: MergeMessages_def readMessagesWithAckLevel_def replicationTasksOf_def example_defs)
  have six: "SourceTaskID (hydrated 6) \<notin> TaskID ` set (map toTaskInfo ?dlq)"
    by (simp add: example_defs)
  from C10_merge_executes_matched_entries_once [OF h] six
  have "Execute ''west'' (hydrated 6) True \<notin> set ?log"
    by blast
  with h d ids show ?thesis by simp
qed

text \<open>
  C9: a merge whose read step succeeds with no lightweight entry still makes a range
  delete; its inclusive upper bound is the beginning sentinel \<open>-1\<close>, the same as its
  exclusive lower bound, so the range is empty. When the delete succeeds the merge
  returns the next page token and no error.
\<close>

theorem C9_merge_empty_page_purges_through_sentinel:
  assumes "taskExecutors r sourceCluster = Some executor"
    and "readMessagesWithAckLevel r sourceCluster lastMessageID pageSize pageToken w =
           ((tasks, [], token, None), w1, calls1)"
  shows "\<exists>res w2.
     RangeDeleteReplicationTaskFromDLQ (GetExecutionManager (shard r))
       \<lparr>del_SourceClusterName = sourceCluster, ExclusiveBeginTaskID = - 1,
        InclusiveEndTaskID = - 1\<rparr> w1 = (res, w2) \<and>
     MergeMessages r sourceCluster lastMessageID pageSize pageToken w =
       ((case res of Inl err \<Rightarrow> ([], Some err) | Inr n \<Rightarrow> (token, None)), w2,
        [StoreRead (readRequest sourceCluster lastMessageID pageSize pageToken),
         RangeDelete \<lparr>del_SourceClusterName = sourceCluster, ExclusiveBeginTaskID = - 1,
                      InclusiveEndTaskID = - 1\<rparr>])"
proof -
  have c1: "calls1 = [StoreRead (readRequest sourceCluster lastMessageID pageSize pageToken)]"
    using readMessagesWithAckLevel_calls [OF assms(2)] by simp
  have lp: "mergeLoop executor sourceCluster (replicationTasksOf tasks) [] defaultBeginningMessageID w1 =
              (Inr defaultBeginningMessageID, w1, [])"
    by simp
  obtain res w2 where d: "RangeDeleteReplicationTaskFromDLQ (GetExecutionManager (shard r))
       (purgeRequest sourceCluster defaultBeginningMessageID) w1 = (res, w2)"
    by (cases "RangeDeleteReplicationTaskFromDLQ (GetExecutionManager (shard r))
       (purgeRequest sourceCluster defaultBeginningMessageID) w1")
  from MergeMessages_loop_done [OF assms(1) assms(2) lp d] c1 d show ?thesis
    by (simp add: purgeRequest_def defaultBeginningMessageID_def)
qed

theorem C9_merge_empty_page_witness:
  "taskExecutors (exampleHandler (exampleStore [1]) (exampleClient [5, 9]) []) ''west'' =
     Some (exampleExecutor []) \<and>
   readMessagesWithAckLevel (exampleHandler (exampleStore [1]) (exampleClient [5, 9]) []) ''west'' 9 10 [] [] =
     (([], [], [1], None), [], [StoreRead (readRequest ''west'' 9 10 [])]) \<and>
   MergeMessages (exampleHandler (exampleStore [1]) (exampleClient [5, 9]) []) ''west'' 9 10 [] [] =
     (([1], None), [],
      [StoreRead (readRequest ''west'' 9 10 []),
       RangeDelete \<lparr>del_SourceClusterName = ''west'', ExclusiveBeginTaskID = - 1,
                    InclusiveEndTaskID = - 1\<rparr>])"
proof -
  let ?h = "exampleHandler (exampleStore [1]) (exampleClient [5, 9]) []"
  have h1: "taskExecutors ?h ''west'' = Some (exampleExecutor [])"
    by (simp add: exampleHandler_def)
  have h2: "readMessagesWithAckLevel ?h ''west'' 9 10 [] [] =
     (([], [], [1], None), [], [StoreRead (readRequest ''west'' 9 10 [])])"
    by (simp add: readMessagesWithAckLevel_def example_defs)
  from C9_merge_empty_page_purges_through_sentinel [OF h1 h2] h1 h2 show ?thesis
    by (simp add: exampleHandler_def exampleShard_def exampleStore_def)
qed

end
